theory Spec2Isabelle
  imports Main
begin

section \<open>Data model (types.ts)\<close>

text \<open>
  The interfaces \<open>User\<close>, \<open>Post\<close>, \<open>Comment\<close> and \<open>Message\<close> of the
  repository, field by field. An optional field (\<open>f?: T\<close>) is a \<open>T option\<close>. The field
  \<open>id\<close> of the four interfaces is written \<open>uid\<close>, \<open>pid\<close>, \<open>cid\<close> and \<open>mid\<close>,
  \<open>Post.image\<close> is \<open>post_image\<close>, and \<open>content\<close>, \<open>authorId\<close>, \<open>createdAt\<close> of
  \<open>Comment\<close> and \<open>Message\<close> carry a prefix, since record fields are constants of the
  theory. Time stamps
  (\<open>Date.now()\<close>, milliseconds) are natural numbers.
\<close>

datatype presence = online | offline | busy

record User =
  uid :: string
  userId :: string
  username :: string
  password :: "string option"
  name :: string
  email :: "string option"
  avatar :: string
  coverPhoto :: string
  bio :: string
  joinedAt :: nat
  friends :: "string list"
  friendRequests :: "string list"
  isAdmin :: "bool option"
  status :: presence

record Comment =
  cid :: string
  c_authorId :: string
  c_content :: string
  c_createdAt :: nat

record Post =
  pid :: string
  authorId :: string
  content :: string
  post_image :: "string option"
  likes :: "string list"
  comments :: "Comment list"
  createdAt :: nat
  sharedFromId :: "string option"
  targetUserIds :: "string list option"

record Message =
  mid :: string
  fromId :: string
  toId :: string
  m_content :: string
  timestamp :: nat
  read :: bool

section \<open>Helpers shared by the storage services\<close>

text \<open>
  \<open>Array.prototype.findIndex\<close>: the index of the first element that passes the test,
  \<open>None\<close> where JavaScript returns \<open>-1\<close>. \<open>Array.prototype.find\<close> is \<open>List.find\<close>;
  the object it returns is the array element at that index, so a mutation of the
  object is an update of the array at the index.
\<close>

fun findIndex :: "('a \<Rightarrow> bool) \<Rightarrow> 'a list \<Rightarrow> nat option" where
  "findIndex P [] = None"
| "findIndex P (x # xs) = (if P x then Some 0 else map_option Suc (findIndex P xs))"

text \<open>A non-negative integer inside a template literal: its decimal digits.\<close>

definition digit_char :: "nat \<Rightarrow> char" where
  "digit_char d = char_of (48 + d)"

fun string_of_nat :: "nat \<Rightarrow> string" where
  "string_of_nat n =
     (if n < 10 then [digit_char n] else string_of_nat (n div 10) @ [digit_char (n mod 10)])"

declare string_of_nat.simps [simp del]

section \<open>Browser local storage\<close>

text \<open>
  The four keys of \<open>KEYS\<close>. A list-valued key that is absent reads as the empty array
  (\<open>JSON.parse(localStorage.getItem(k) || '[]')\<close>, \<open>getStored(k, [])\<close>), so the three
  collections are lists. The session is the signed-in user's record in the synchronous
  service and the signed-in user's id in the asynchronous one, hence the parameter.

  \<open>localStorage.setItem\<close> throws when the quota is exceeded. Which contents fit is a
  parameter \<open>quota\<close> of every operation that writes: the write of new contents \<open>s'\<close>
  succeeds iff \<open>quota s'\<close>.
\<close>

record 's localStorage =
  USERS :: "User list"
  POSTS :: "Post list"
  MESSAGES :: "Message list"
  SESSION :: "'s option"

datatype error = UserNotFound | UserIdTaken | StorageFull | BackendError

definition setItem ::
  "('s localStorage \<Rightarrow> bool) \<Rightarrow> 's localStorage \<Rightarrow> 's localStorage option" where
  "setItem quota s' = (if quota s' then Some s' else None)"

section \<open>Synchronous local-storage service (unnamed/part\_000)\<close>

text \<open>\<open>safeSetItem\<close> catches the exception and reports \<open>false\<close>; the storage is unchanged.\<close>

definition safeSetItem ::
  "('s localStorage \<Rightarrow> bool) \<Rightarrow> 's localStorage \<Rightarrow> 's localStorage \<Rightarrow> bool \<times> 's localStorage"
  where
  "safeSetItem quota s' s = (case setItem quota s' of Some t \<Rightarrow> (True, t) | None \<Rightarrow> (False, s))"

definition saveUsers ::
  "(User localStorage \<Rightarrow> bool) \<Rightarrow> User list \<Rightarrow> User localStorage \<Rightarrow> bool \<times> User localStorage"
  where
  "saveUsers quota users s = safeSetItem quota (s\<lparr>USERS := users\<rparr>) s"

definition savePosts ::
  "(User localStorage \<Rightarrow> bool) \<Rightarrow> Post list \<Rightarrow> User localStorage \<Rightarrow> bool \<times> User localStorage"
  where
  "savePosts quota posts s = safeSetItem quota (s\<lparr>POSTS := posts\<rparr>) s"

definition saveMessages ::
  "(User localStorage \<Rightarrow> bool) \<Rightarrow> Message list \<Rightarrow> User localStorage \<Rightarrow> bool \<times> User localStorage"
  where
  "saveMessages quota msgs s = safeSetItem quota (s\<lparr>MESSAGES := msgs\<rparr>) s"

definition setCurrentUser ::
  "(User localStorage \<Rightarrow> bool) \<Rightarrow> User option \<Rightarrow> User localStorage \<Rightarrow> User localStorage"
  where
  "setCurrentUser quota user s =
     (case user of
        Some u \<Rightarrow> snd (safeSetItem quota (s\<lparr>SESSION := Some u\<rparr>) s)
      | None \<Rightarrow> s\<lparr>SESSION := None\<rparr>)"


definition findUserByCustomId :: "string \<Rightarrow> 's localStorage \<Rightarrow> User option" where
  "findUserByCustomId customId s = find (\<lambda>u. userId u = customId) (USERS s)"

definition updateUser_sync ::
  "(User localStorage \<Rightarrow> bool) \<Rightarrow> User \<Rightarrow> User localStorage \<Rightarrow> bool \<times> User localStorage"
  where
  "updateUser_sync quota updatedUser s =
     (case find (\<lambda>u. userId u = userId updatedUser \<and> uid u \<noteq> uid updatedUser) (USERS s) of
        Some existing \<Rightarrow> (False, s)
      | None \<Rightarrow>
          (case saveUsers quota
                  (map (\<lambda>u. if uid u = uid updatedUser then updatedUser else u) (USERS s)) s of
             (saved, s1) \<Rightarrow>
               if saved then (True, setCurrentUser quota (Some updatedUser) s1)
               else (False, s1)))"

text \<open>
  \<open>createPost\<close>: \<open>if (posts.length > 50) posts.pop(); posts.unshift(post)\<close>. The newest
  post is the head of the array, \<open>pop\<close> removes the last element.
\<close>

definition createPost_sync ::
  "(User localStorage \<Rightarrow> bool) \<Rightarrow> Post \<Rightarrow> User localStorage \<Rightarrow> User localStorage" where
  "createPost_sync quota post s =
     (let posts = POSTS s;
          posts1 = (if length posts > 50 then butlast posts else posts)
      in snd (savePosts quota (post # posts1) s))"



text \<open>\<open>sendMessage\<close>: \<open>messages.push(msg); if (messages.length > 500) messages.splice(0, 100)\<close>.\<close>

definition sendMessage_sync ::
  "(User localStorage \<Rightarrow> bool) \<Rightarrow> Message \<Rightarrow> User localStorage \<Rightarrow> User localStorage" where
  "sendMessage_sync quota msg s =
     (let messages = MESSAGES s @ [msg];
          messages1 = (if length messages > 500 then drop 100 messages else messages)
      in snd (saveMessages quota messages1 s))"

section \<open>Asynchronous local-storage service (unnamed/part\_001)\<close>

text \<open>
  \<open>setStored\<close> rethrows a failed write as \<open>Error("Storage full...")\<close>. The artificial
  \<open>delay\<close> of the operations has no effect on the stored data. The session holds the
  id of the signed-in user.
\<close>

definition setStored ::
  "('s localStorage \<Rightarrow> bool) \<Rightarrow> 's localStorage \<Rightarrow> error + 's localStorage" where
  "setStored quota s' = (case setItem quota s' of Some t \<Rightarrow> Inr t | None \<Rightarrow> Inl StorageFull)"

text \<open>
  \<open>login\<close>: the first \<open>find\<close>, which compares the password, binds \<open>user\<close>, and
  \<open>user\<close> is never read afterwards.
\<close>

definition login ::
  "(string localStorage \<Rightarrow> bool) \<Rightarrow> string \<Rightarrow> string \<Rightarrow> string localStorage
     \<Rightarrow> error + (User \<times> string localStorage)" where
  "login quota userId' password' s =
     (let users = USERS s;
          user = find (\<lambda>u. userId u = userId' \<and> password u = Some password') users;
          found = find (\<lambda>u. userId u = userId') users
      in case found of
           None \<Rightarrow> Inl UserNotFound
         | Some f \<Rightarrow>
             (case setStored quota (s\<lparr>SESSION := Some (uid f)\<rparr>) of
                Inl e \<Rightarrow> Inl e
              | Inr s1 \<Rightarrow> Inr (f, s1)))"


text \<open>\<open>updateUser\<close>: the \<open>catch\<close> turns a failed write into the result \<open>false\<close>.\<close>

definition updateUser_local ::
  "(string localStorage \<Rightarrow> bool) \<Rightarrow> User \<Rightarrow> string localStorage
     \<Rightarrow> bool \<times> string localStorage" where
  "updateUser_local quota updatedUser s =
     (case findIndex (\<lambda>u. uid u = uid updatedUser) (USERS s) of
        Some index \<Rightarrow>
          (case setStored quota (s\<lparr>USERS := (USERS s)[index := updatedUser]\<rparr>) of
             Inr s1 \<Rightarrow> (True, s1)
           | Inl e \<Rightarrow> (False, s))
      | None \<Rightarrow> (False, s))"

text \<open>\<open>checkIdAvailability\<close>: \<open>currentUid && ...\<close> is false for an absent and for an empty id.\<close>

definition checkIdAvailability :: "string \<Rightarrow> string option \<Rightarrow> 's localStorage \<Rightarrow> bool" where
  "checkIdAvailability userId' currentUid s =
     (case find (\<lambda>u. userId u = userId') (USERS s) of
        None \<Rightarrow> True
      | Some found \<Rightarrow>
          (case currentUid of
             None \<Rightarrow> False
           | Some c \<Rightarrow> c \<noteq> [] \<and> uid found = c))"

text \<open>
  \<open>sendMessage\<close>: \<open>if (!msg.id) msg.id = `msg-${Date.now()}-${Math.random()}`\<close>. An
  absent id is the empty string. The clock and the printed random number are
  parameters.
\<close>

definition sendMessage_local ::
  "(string localStorage \<Rightarrow> bool) \<Rightarrow> nat \<Rightarrow> string \<Rightarrow> Message \<Rightarrow> string localStorage
     \<Rightarrow> error + string localStorage" where
  "sendMessage_local quota now rnd msg s =
     (let msg1 = (if mid msg = [] then msg\<lparr>mid := ''msg-'' @ string_of_nat now @ ''-'' @ rnd\<rparr>
                  else msg)
      in setStored quota (s\<lparr>MESSAGES := MESSAGES s @ [msg1]\<rparr>))"


definition createPost_local ::
  "(string localStorage \<Rightarrow> bool) \<Rightarrow> Post \<Rightarrow> string localStorage
     \<Rightarrow> bool \<times> string localStorage" where
  "createPost_local quota post s =
     (case setStored quota (s\<lparr>POSTS := post # POSTS s\<rparr>) of
        Inr s1 \<Rightarrow> (True, s1)
      | Inl e \<Rightarrow> (False, s))"

definition deleteUser ::
  "(string localStorage \<Rightarrow> bool) \<Rightarrow> string \<Rightarrow> string localStorage
     \<Rightarrow> error + string localStorage" where
  "deleteUser quota uid' s = setStored quota (s\<lparr>USERS := filter (\<lambda>u. uid u \<noteq> uid') (USERS s)\<rparr>)"

section \<open>Firestore service (services/storage.ts)\<close>

text \<open>
  The collections \<open>users\<close> and \<open>posts\<close> are keyed by document id; \<open>messages\<close>
  receives its documents through \<open>addDoc\<close>, which never overwrites, and is a list in
  the order of the additions. The model covers the runs in which the backend answers:
  the only failures are the ones Firestore raises for the data (\<open>updateDoc\<close> on a
  document that does not exist, reading a field of a missing document).

  \<open>arrayUnion\<close> adds an element that is not yet in the array, \<open>arrayRemove\<close> removes
  every occurrence.
\<close>

record firestore =
  fs_users :: "string \<rightharpoonup> User"
  fs_posts :: "string \<rightharpoonup> Post"
  fs_messages :: "Message list"



definition updateDoc_users :: "string \<Rightarrow> (User \<Rightarrow> User) \<Rightarrow> firestore \<Rightarrow> firestore option" where
  "updateDoc_users ref f db =
     (case fs_users db ref of
        None \<Rightarrow> None
      | Some u \<Rightarrow> Some (db\<lparr>fs_users := (fs_users db)(ref \<mapsto> f u)\<rparr>))"

text \<open>
  \<open>updateUser\<close>: \<open>updateDoc(userRef, {...updatedUser})\<close> writes the fields the object
  has; an optional field the object lacks keeps the stored value. The comment of the
  source announces a uniqueness check of \<open>userId\<close>; the body has none.
\<close>

definition updateUser_fs :: "User \<Rightarrow> firestore \<Rightarrow> bool \<times> firestore" where
  "updateUser_fs updatedUser db =
     (case updateDoc_users (uid updatedUser)
             (\<lambda>old. updatedUser
                \<lparr>password := (case password updatedUser of None \<Rightarrow> password old | Some x \<Rightarrow> Some x),
                 email := (case email updatedUser of None \<Rightarrow> email old | Some x \<Rightarrow> Some x),
                 isAdmin := (case isAdmin updatedUser of None \<Rightarrow> isAdmin old | Some x \<Rightarrow> Some x)\<rparr>)
             db of
        Some db1 \<Rightarrow> (True, db1)
      | None \<Rightarrow> (False, db))"


text \<open>
  An object literal of type \<open>Post\<close> as it is handed to \<open>setDoc\<close>. For the type and
  for JSON a key whose value is \<open>undefined\<close> is an absent field; Firestore, with the
  default settings of \<open>getFirestore(app)\<close>, refuses an object that carries such a key.
  The record keeps the post the literal stands for and the keys the literal carries with
  the value \<open>undefined\<close>.
\<close>

record PostLiteral =
  post_of :: Post
  undefinedKeys :: "string list"

text \<open>
  \<open>createPost\<close>: \<open>setDoc(doc(db, 'posts', post.id), post)\<close> replaces the document.
  When \<open>setDoc\<close> throws for a key with the value \<open>undefined\<close>, the \<open>catch\<close> logs
  the error and returns \<open>false\<close>; nothing is stored.
\<close>

definition createPost_fs :: "PostLiteral \<Rightarrow> firestore \<Rightarrow> bool \<times> firestore" where
  "createPost_fs post db =
     (if undefinedKeys post = []
      then (True, db\<lparr>fs_posts := (fs_posts db)(pid (post_of post) \<mapsto> post_of post)\<rparr>)
      else (False, db))"

definition sendMessage_fs :: "Message \<Rightarrow> firestore \<Rightarrow> firestore" where
  "sendMessage_fs msg db = db\<lparr>fs_messages := fs_messages db @ [msg]\<rparr>"

section \<open>Feed component (components/Feed/Feed.tsx)\<close>

text \<open>
  The filter of the subscription callback:
  \<^verbatim>\<open>allPosts.filter(p => !p.targetUserIds || p.targetUserIds.length === 0 ||
       p.targetUserIds.includes(currentUser.id) || p.authorId === currentUser.id)\<close>
  \<open>!p.targetUserIds\<close> holds for an absent field only: an array, also the empty one,
  is truthy in JavaScript.
\<close>

definition visible :: "string \<Rightarrow> Post \<Rightarrow> bool" where
  "visible currentUserId p =
     (case targetUserIds p of
        None \<Rightarrow> True
      | Some ids \<Rightarrow> length ids = 0 \<or> currentUserId \<in> set ids \<or> authorId p = currentUserId)"

definition visiblePosts :: "string \<Rightarrow> Post list \<Rightarrow> Post list" where
  "visiblePosts currentUserId allPosts = filter (visible currentUserId) allPosts"

text \<open>
  \<open>handleSharePost\<close> builds \<open>newPost\<close> from the post under the share dialog
  (\<open>postToShare\<close>, set by the share button of any post of the feed, original or
  share) and stores it with \<open>createPost\<close>. Without \<open>postToShare\<close> it returns at once.
  \<open>Date.now()\<close> is read for the id and again for \<open>createdAt\<close>. The literal has no
  key \<open>image\<close>; it always has the key \<open>targetUserIds\<close>, with the value
  \<open>undefined\<close> when no friend is selected.
\<close>

definition newPost ::
  "nat \<Rightarrow> nat \<Rightarrow> User \<Rightarrow> string \<Rightarrow> string list \<Rightarrow> Post \<Rightarrow> PostLiteral" where
  "newPost now1 now2 currentUser shareCaption selectedFriends postToShare =
     \<lparr>post_of =
        \<lparr>pid = ''post-share-'' @ string_of_nat now1,
         authorId = uid currentUser,
         content = shareCaption,
         post_image = None,
         likes = [],
         comments = [],
         createdAt = now2,
         sharedFromId = Some (pid postToShare),
         targetUserIds = (if length selectedFriends > 0 then Some selectedFriends else None)\<rparr>,
      undefinedKeys = (if length selectedFriends > 0 then [] else [''targetUserIds''])\<rparr>"

definition handleSharePost ::
  "nat \<Rightarrow> nat \<Rightarrow> User \<Rightarrow> string \<Rightarrow> string list \<Rightarrow> Post option \<Rightarrow> firestore \<Rightarrow> firestore"
  where
  "handleSharePost now1 now2 currentUser shareCaption selectedFriends postToShare db =
     (case postToShare of
        None \<Rightarrow> db
      | Some p \<Rightarrow>
          snd (createPost_fs (newPost now1 now2 currentUser shareCaption selectedFriends p) db))"



section \<open>Sequences of calls and example data\<close>

text \<open>A sequence of \<open>createPost\<close> calls of the synchronous service, first post first.\<close>

definition createPosts_sync ::
  "(User localStorage \<Rightarrow> bool) \<Rightarrow> Post list \<Rightarrow> User localStorage \<Rightarrow> User localStorage" where
  "createPosts_sync quota ps s = foldl (\<lambda>t p. createPost_sync quota p t) s ps"

text \<open>A browser whose local storage accepts every write.\<close>

definition unlimited :: "'s localStorage \<Rightarrow> bool" where
  "unlimited s = True"

text \<open>A browser whose local storage is full: it refuses every write.\<close>

definition full :: "'s localStorage \<Rightarrow> bool" where
  "full s = False"


definition emptyStorage :: "'s localStorage" where
  "emptyStorage = \<lparr>USERS = [], POSTS = [], MESSAGES = [], SESSION = None\<rparr>"

definition mkUser :: "string \<Rightarrow> string \<Rightarrow> string list \<Rightarrow> string list \<Rightarrow> User" where
  "mkUser i handle fs rs =
     \<lparr>uid = i, userId = handle, username = handle, password = Some ''secret'', name = handle,
      email = None, avatar = [], coverPhoto = [], bio = [], joinedAt = 0,
      friends = fs, friendRequests = rs, isAdmin = None, status = online\<rparr>"

definition alice :: User where
  "alice = mkUser ''u-alice'' ''alice1'' [] []"

definition bob :: User where
  "bob = mkUser ''u-bob'' ''bob1'' [] [''u-alice'']"

definition carol :: User where
  "carol = mkUser ''u-carol'' ''carol1'' [''u-bob''] [''u-bob'']"

definition mkPost :: "string \<Rightarrow> string \<Rightarrow> string option \<Rightarrow> Post" where
  "mkPost i author shared =
     \<lparr>pid = i, authorId = author, content = ''hello'', post_image = None, likes = [],
      comments = [], createdAt = 0, sharedFromId = shared, targetUserIds = None\<rparr>"

definition numberedPost :: "nat \<Rightarrow> Post" where
  "numberedPost n = (mkPost (''post-'' @ string_of_nat n) ''u-alice'' None)\<lparr>createdAt := n\<rparr>"

definition mkMessage :: "string \<Rightarrow> Message" where
  "mkMessage i =
     \<lparr>mid = i, fromId = ''u-alice'', toId = ''u-bob'', m_content = ''hi'', timestamp = 0,
      read = False\<rparr>"

definition people :: "'s localStorage" where
  "people = emptyStorage\<lparr>USERS := [alice, bob, carol]\<rparr>"

definition peopleDocs :: firestore where
  "peopleDocs =
     \<lparr>fs_users = [''u-alice'' \<mapsto> alice, ''u-bob'' \<mapsto> bob, ''u-carol'' \<mapsto> carol],
      fs_posts = Map.empty, fs_messages = []\<rparr>"

section \<open>Post visibility\<close>

text \<open>
  Claim C1. For every post and viewer, the filter of the feed keeps the post if and only
  if the post's \<open>targetUserIds\<close> is absent or empty, or the viewer is one of its
  members, or the viewer is the post's author. A post restricted to the single user
  \<open>x\<close> is kept exactly for \<open>x\<close> and for the author; a post with an absent or an empty
  set is kept for every viewer; and the filtered feed holds exactly the posts of the
  snapshot that pass the test.
\<close>

theorem visible_iff:
  "(visible v p \<longleftrightarrow>
      targetUserIds p = None \<or> targetUserIds p = Some [] \<or>
      (\<exists>ids. targetUserIds p = Some ids \<and> v \<in> set ids) \<or> v = authorId p)
   \<and> (visible v (p\<lparr>targetUserIds := Some [x]\<rparr>) \<longleftrightarrow> v = x \<or> v = authorId p)
   \<and> visible v (p\<lparr>targetUserIds := None\<rparr>)
   \<and> visible v (p\<lparr>targetUserIds := Some []\<rparr>)
   \<and> set (visiblePosts v ps) = {q. q \<in> set ps \<and> visible v q}"
  by (auto simp: visible_def visiblePosts_def split: option.splits)

section \<open>Facts about the helpers\<close>








section \<open>Accepting a friend request\<close>














section \<open>The cap on stored posts\<close>

lemma createPost_sync_unlimited:
  "POSTS (createPost_sync unlimited p s) =
     p # (if length (POSTS s) > 50 then butlast (POSTS s) else POSTS s)"
  by (simp add: createPost_sync_def savePosts_def safeSetItem_def setItem_def unlimited_def Let_def)

lemma createPosts_sync_small:
  "length (POSTS s) + length ps \<le> 51 \<Longrightarrow>
   POSTS (createPosts_sync unlimited ps s) = rev ps @ POSTS s"
proof (induction ps arbitrary: s)
  case Nil then show ?case by (simp add: createPosts_sync_def)
next
  case (Cons p ps)
  have step: "POSTS (createPost_sync unlimited p s) = p # POSTS s"
    using Cons.prems by (simp add: createPost_sync_unlimited)
  have "POSTS (createPosts_sync unlimited ps (createPost_sync unlimited p s))
          = rev ps @ POSTS (createPost_sync unlimited p s)"
    by (rule Cons.IH) (use Cons.prems step in simp)
  then show ?case by (simp add: createPosts_sync_def step)
qed

lemma createPosts_sync_snoc:
  "createPosts_sync quota (ps @ [p]) s = createPost_sync quota p (createPosts_sync quota ps s)"
  by (simp add: createPosts_sync_def)

text \<open>The asynchronous local-storage service inserts and never evicts.\<close>

lemma createPost_local_no_eviction:
  "createPost_local unlimited p s = (True, s\<lparr>POSTS := p # POSTS s\<rparr>)"
  by (simp add: createPost_local_def setStored_def setItem_def unlimited_def)

text \<open>
  Claim C3, evaluated on the code. The claim promises that 51 posts created against the
  cap of 50 leave exactly 50 posts, without the first one. The synchronous local-storage
  service tests \<open>posts.length > 50\<close> before it inserts, so it evicts only when 51 posts
  are stored already: after 51 calls on an empty store all 51 posts are there, the first
  one included, and after the 52nd call the store still holds 51 posts, one more than
  the limit its own comment names.
\<close>

theorem createPost_sync_keeps_51:
  "length (POSTS (createPosts_sync unlimited (map numberedPost [1..<52]) emptyStorage)) = 51
   \<and> numberedPost 1 \<in> set (POSTS (createPosts_sync unlimited (map numberedPost [1..<52]) emptyStorage))
   \<and> numberedPost 51 \<in> set (POSTS (createPosts_sync unlimited (map numberedPost [1..<52]) emptyStorage))
   \<and> length (POSTS (createPosts_sync unlimited (map numberedPost [1..<53]) emptyStorage)) = 51"
proof -
  define X :: "User localStorage"
    where "X = createPosts_sync unlimited (map numberedPost [1..<52]) emptyStorage"
  have a: "POSTS X = rev (map numberedPost [1..<52])"
    unfolding X_def
    using createPosts_sync_small [of emptyStorage "map numberedPost [1..<52]"]
    by (simp add: emptyStorage_def)
  have l: "length (POSTS X) = 51"
    unfolding a by simp
  have m1: "numberedPost 1 \<in> set (POSTS X)"
    unfolding a by simp
  have m2: "numberedPost 51 \<in> set (POSTS X)"
    unfolding a by simp
  have "[1..<Suc 52] = [1..<52] @ [52::nat]"
    by (rule upt_Suc_append) simp
  moreover have "Suc 52 = 53"
    by simp
  ultimately have "[1..<53] = [1..<52] @ [52::nat]"
    by (simp only:)
  then have split: "map numberedPost [1..<53] = map numberedPost [1..<52] @ [numberedPost 52]"
    by (simp only: map_append list.map)
  have "createPosts_sync unlimited (map numberedPost [1..<53]) emptyStorage
          = createPost_sync unlimited (numberedPost 52) X"
    unfolding split X_def by (rule createPosts_sync_snoc)
  moreover have "length (POSTS (createPost_sync unlimited (numberedPost 52) X)) = 51"
    using l by (simp add: createPost_sync_unlimited)
  ultimately have b:
    "length (POSTS (createPosts_sync unlimited (map numberedPost [1..<53]) emptyStorage)) = 51"
    by simp
  show ?thesis using l m1 m2 b unfolding X_def by blast
qed

section \<open>Handles on update\<close>

text \<open>
  The synchronous service alone looks for another holder of the handle: when there is
  one it refuses and leaves the storage as it is, and when there is none (as in a rename
  to the user's own handle) it goes on to the write.
\<close>

lemma updateUser_sync_refuses:
  "find (\<lambda>u. userId u = userId updatedUser \<and> uid u \<noteq> uid updatedUser) (USERS s) = Some other
   \<Longrightarrow> updateUser_sync quota updatedUser s = (False, s)"
  by (simp add: updateUser_sync_def)

lemma updateUser_sync_accepts:
  "find (\<lambda>u. userId u = userId updatedUser \<and> uid u \<noteq> uid updatedUser) (USERS s) = None
   \<Longrightarrow> fst (updateUser_sync unlimited updatedUser s) = True
     \<and> USERS (snd (updateUser_sync unlimited updatedUser s))
         = map (\<lambda>u. if uid u = uid updatedUser then updatedUser else u) (USERS s)"
  by (simp add: updateUser_sync_def saveUsers_def setCurrentUser_def safeSetItem_def
      setItem_def unlimited_def)

text \<open>
  Claim C6, evaluated on the code. Bob asks for the handle Alice holds. The synchronous
  local-storage service refuses and stores nothing. The asynchronous local-storage
  service and the Firestore service answer \<open>true\<close> and store the record, after which
  two users hold one handle; the availability check of the asynchronous service, which
  \<open>updateUser\<close> does not call, reports the handle as taken.
\<close>

theorem updateUser_duplicate_handle:
  "userId (bob\<lparr>userId := ''alice1''\<rparr>) = userId alice \<and> uid (bob\<lparr>userId := ''alice1''\<rparr>) \<noteq> uid alice
   \<and> checkIdAvailability ''alice1'' (Some ''u-bob'') (people :: string localStorage) = False
   \<and> updateUser_sync unlimited (bob\<lparr>userId := ''alice1''\<rparr>) people = (False, people)
   \<and> updateUser_local unlimited (bob\<lparr>userId := ''alice1''\<rparr>) people
        = (True, people\<lparr>USERS := [alice, bob\<lparr>userId := ''alice1''\<rparr>, carol]\<rparr>)
   \<and> updateUser_fs (bob\<lparr>userId := ''alice1''\<rparr>) peopleDocs
        = (True, peopleDocs\<lparr>fs_users := (fs_users peopleDocs)(''u-bob'' \<mapsto> bob\<lparr>userId := ''alice1''\<rparr>)\<rparr>)"
proof -
  have a: "updateUser_sync unlimited (bob\<lparr>userId := ''alice1''\<rparr>) people = (False, people)"
    by (simp add: updateUser_sync_def people_def emptyStorage_def alice_def bob_def carol_def
        mkUser_def)
  have b: "updateUser_local unlimited (bob\<lparr>userId := ''alice1''\<rparr>) people
        = (True, people\<lparr>USERS := [alice, bob\<lparr>userId := ''alice1''\<rparr>, carol]\<rparr>)"
    by (simp add: updateUser_local_def setStored_def setItem_def unlimited_def people_def
        emptyStorage_def alice_def bob_def carol_def mkUser_def)
  have c: "updateUser_fs (bob\<lparr>userId := ''alice1''\<rparr>) peopleDocs
        = (True, peopleDocs\<lparr>fs_users := (fs_users peopleDocs)(''u-bob'' \<mapsto> bob\<lparr>userId := ''alice1''\<rparr>)\<rparr>)"
    by (simp add: updateUser_fs_def updateDoc_users_def peopleDocs_def alice_def bob_def carol_def
        mkUser_def)
  have d: "userId (bob\<lparr>userId := ''alice1''\<rparr>) = userId alice \<and> uid (bob\<lparr>userId := ''alice1''\<rparr>) \<noteq> uid alice"
    by (simp add: alice_def bob_def mkUser_def)
  have e: "checkIdAvailability ''alice1'' (Some ''u-bob'') (people :: string localStorage) = False"
    by (simp add: checkIdAvailability_def people_def emptyStorage_def alice_def bob_def carol_def
        mkUser_def)
  show ?thesis using a b c d e by blast
qed

section \<open>Sending a message\<close>

lemma sendMessage_sync_eq:
  "sendMessage_sync quota msg s =
     (if quota (s\<lparr>MESSAGES := (if 500 < length (MESSAGES s @ [msg])
                                 then drop 100 (MESSAGES s @ [msg]) else MESSAGES s @ [msg])\<rparr>)
      then s\<lparr>MESSAGES := (if 500 < length (MESSAGES s @ [msg])
                           then drop 100 (MESSAGES s @ [msg]) else MESSAGES s @ [msg])\<rparr>
      else s)"
  by (simp add: sendMessage_sync_def saveMessages_def safeSetItem_def setItem_def Let_def)

lemma sendMessage_sync_bound:
  "length (MESSAGES s) \<le> 500 \<Longrightarrow> length (MESSAGES (sendMessage_sync quota msg s)) \<le> 500"
  unfolding sendMessage_sync_eq by (simp split: if_splits) arith

lemma sendMessage_local_eq:
  "sendMessage_local quota now rnd msg s =
     (if quota (s\<lparr>MESSAGES := MESSAGES s @
                    [if mid msg = [] then msg\<lparr>mid := ''msg-'' @ string_of_nat now @ ''-'' @ rnd\<rparr> else msg]\<rparr>)
      then Inr (s\<lparr>MESSAGES := MESSAGES s @
                    [if mid msg = [] then msg\<lparr>mid := ''msg-'' @ string_of_nat now @ ''-'' @ rnd\<rparr> else msg]\<rparr>)
      else Inl StorageFull)"
  by (simp add: sendMessage_local_def setStored_def setItem_def Let_def)

text \<open>
  Claim C8, as the code has it. \<open>sendMessage\<close> appends the message whenever the storage
  accepts the write. The synchronous local-storage service stores the message as it is
  given, without assigning an id, and drops the 100 oldest messages when the count after
  the append exceeds 500; when the browser refuses the write the storage is unchanged,
  so in every case a store of at most 500 messages holds at most 500 afterwards. The
  asynchronous local-storage service gives the message a generated, non-empty id when
  its id is empty, appends it and never evicts; it fails with "storage full" exactly when
  the browser refuses the write. The Firestore service appends the message as it is
  given and never evicts.
\<close>

theorem sendMessage_variants:
  "sendMessage_sync quota msg s =
     (if quota (s\<lparr>MESSAGES := (if 500 < length (MESSAGES s @ [msg])
                                 then drop 100 (MESSAGES s @ [msg]) else MESSAGES s @ [msg])\<rparr>)
      then s\<lparr>MESSAGES := (if 500 < length (MESSAGES s @ [msg])
                           then drop 100 (MESSAGES s @ [msg]) else MESSAGES s @ [msg])\<rparr>
      else s)
   \<and> last (if 500 < length (MESSAGES s @ [msg])
            then drop 100 (MESSAGES s @ [msg]) else MESSAGES s @ [msg]) = msg
   \<and> (length (MESSAGES s) \<le> 500 \<longrightarrow> length (MESSAGES (sendMessage_sync quota msg s)) \<le> 500)
   \<and> sendMessage_local quota' now rnd msg t =
       (if quota' (t\<lparr>MESSAGES := MESSAGES t @
                      [if mid msg = [] then msg\<lparr>mid := ''msg-'' @ string_of_nat now @ ''-'' @ rnd\<rparr>
                       else msg]\<rparr>)
        then Inr (t\<lparr>MESSAGES := MESSAGES t @
                      [if mid msg = [] then msg\<lparr>mid := ''msg-'' @ string_of_nat now @ ''-'' @ rnd\<rparr>
                       else msg]\<rparr>)
        else Inl StorageFull)
   \<and> mid (if mid msg = [] then msg\<lparr>mid := ''msg-'' @ string_of_nat now @ ''-'' @ rnd\<rparr> else msg) \<noteq> []
   \<and> fs_messages (sendMessage_fs msg db) = fs_messages db @ [msg]"
proof -
  have a: "length (MESSAGES s) \<le> 500 \<longrightarrow> length (MESSAGES (sendMessage_sync quota msg s)) \<le> 500"
    by (simp add: sendMessage_sync_bound)
  have b: "last (if 500 < length (MESSAGES s @ [msg])
            then drop 100 (MESSAGES s @ [msg]) else MESSAGES s @ [msg]) = msg"
    by simp
  have c: "mid (if mid msg = [] then msg\<lparr>mid := ''msg-'' @ string_of_nat now @ ''-'' @ rnd\<rparr> else msg) \<noteq> []"
    by simp
  have e: "fs_messages (sendMessage_fs msg db) = fs_messages db @ [msg]"
    by (simp add: sendMessage_fs_def)
  show ?thesis
    using a b c e sendMessage_sync_eq [of quota msg s] sendMessage_local_eq [of quota' now rnd msg t]
    by blast
qed

theorem sendMessage_variants_witness:
  "length (MESSAGES (emptyStorage\<lparr>MESSAGES := replicate 500 (mkMessage ''old'')\<rparr> :: User localStorage)) \<le> 500
   \<and> sendMessage_sync unlimited (mkMessage [])
         (emptyStorage\<lparr>MESSAGES := replicate 500 (mkMessage ''old'')\<rparr>)
       = emptyStorage\<lparr>MESSAGES := replicate 400 (mkMessage ''old'') @ [mkMessage []]\<rparr>
   \<and> length (MESSAGES (sendMessage_sync unlimited (mkMessage [])
        (emptyStorage\<lparr>MESSAGES := replicate 500 (mkMessage ''old'')\<rparr>))) \<le> 500
   \<and> sendMessage_sync full (mkMessage [])
         (emptyStorage\<lparr>MESSAGES := replicate 500 (mkMessage ''old'')\<rparr>)
       = emptyStorage\<lparr>MESSAGES := replicate 500 (mkMessage ''old'')\<rparr>
   \<and> sendMessage_local unlimited 7 ''0.5'' (mkMessage []) emptyStorage
        = Inr (emptyStorage\<lparr>MESSAGES := [mkMessage (''msg-'' @ string_of_nat 7 @ ''-0.5'')]\<rparr>)
   \<and> sendMessage_local unlimited 7 ''0.5'' (mkMessage ''m1'') emptyStorage
        = Inr (emptyStorage\<lparr>MESSAGES := [mkMessage ''m1'']\<rparr>)
   \<and> sendMessage_local full 7 ''0.5'' (mkMessage []) emptyStorage = Inl StorageFull"
proof -
  let ?s = "emptyStorage\<lparr>MESSAGES := replicate 500 (mkMessage ''old'')\<rparr> :: User localStorage"
  let ?t = "emptyStorage :: string localStorage"
  have h1: "length (MESSAGES ?s) \<le> 500"
    by (simp add: emptyStorage_def)
  from sendMessage_variants [of unlimited "mkMessage []" ?s unlimited 7 "''0.5''" ?t]
  have a: "sendMessage_sync unlimited (mkMessage []) ?s
             = emptyStorage\<lparr>MESSAGES := replicate 400 (mkMessage ''old'') @ [mkMessage []]\<rparr>"
    and b: "sendMessage_local unlimited 7 ''0.5'' (mkMessage []) ?t
             = Inr (emptyStorage\<lparr>MESSAGES := [mkMessage (''msg-'' @ string_of_nat 7 @ ''-0.5'')]\<rparr>)"
    by (simp_all add: unlimited_def emptyStorage_def mkMessage_def)
  from h1 sendMessage_variants [of unlimited "mkMessage []" ?s unlimited 7 "''0.5''" ?t]
  have c: "length (MESSAGES (sendMessage_sync unlimited (mkMessage []) ?s)) \<le> 500"
    by blast
  from sendMessage_variants [of full "mkMessage []" ?s full 7 "''0.5''" ?t]
  have d: "sendMessage_sync full (mkMessage []) ?s = ?s"
    and e: "sendMessage_local full 7 ''0.5'' (mkMessage []) ?t = Inl StorageFull"
    by (simp_all add: full_def)
  from sendMessage_variants [of unlimited "mkMessage ''m1''" ?s unlimited 7 "''0.5''" ?t]
  have f: "sendMessage_local unlimited 7 ''0.5'' (mkMessage ''m1'') ?t
             = Inr (emptyStorage\<lparr>MESSAGES := [mkMessage ''m1'']\<rparr>)"
    by (simp add: unlimited_def emptyStorage_def mkMessage_def)
  from h1 a b c d e f show ?thesis by simp
qed

text \<open>
  The claim as stated fails in the asynchronous local-storage service: with 500 messages
  stored, one more message gives 501, and nothing is evicted. It fails in the
  synchronous service too, where a message without an id is stored without one.
\<close>

theorem sendMessage_no_eviction_counterexample:
  "sendMessage_local unlimited 7 ''0.5'' (mkMessage ''new'')
      (emptyStorage\<lparr>MESSAGES := replicate 500 (mkMessage ''old'')\<rparr>)
     = Inr (emptyStorage\<lparr>MESSAGES := replicate 500 (mkMessage ''old'') @ [mkMessage ''new'']\<rparr>)
   \<and> length (replicate 500 (mkMessage ''old'') @ [mkMessage ''new'']) = 501
   \<and> mid (last (MESSAGES (sendMessage_sync unlimited (mkMessage []) emptyStorage))) = []"
  by (simp add: sendMessage_sync_eq sendMessage_local_eq unlimited_def emptyStorage_def mkMessage_def)

section \<open>Likes\<close>





section \<open>Shares\<close>

text \<open>
  With no friend selected the literal carries \<open>targetUserIds: undefined\<close>; the
  Firestore service refuses it and the share is not stored.
\<close>

lemma handleSharePost_public_refused:
  "handleSharePost now1 now2 currentUser shareCaption [] (Some p) db = db"
  by (simp add: handleSharePost_def newPost_def createPost_fs_def)

text \<open>
  Claim C5, as the code has it. Sharing a post \<open>p\<close> with at least one friend selected
  stores a new post whose \<open>sharedFromId\<close> is the id of \<open>p\<close> itself, whether or not
  \<open>p\<close> is a share; the new post is authored by the sharer, carries the caption, has
  no likes and no comments, and is restricted to the selected friends. Without a post
  under the share dialog nothing happens.
\<close>

theorem handleSharePost_chains:
  "handleSharePost now1 now2 currentUser shareCaption selectedFriends None db = db
   \<and> (selectedFriends \<noteq> [] \<longrightarrow>
        (\<exists>q. fs_posts (handleSharePost now1 now2 currentUser shareCaption selectedFriends (Some p) db)
              (''post-share-'' @ string_of_nat now1) = Some q
         \<and> pid q = ''post-share-'' @ string_of_nat now1
         \<and> sharedFromId q = Some (pid p)
         \<and> authorId q = uid currentUser
         \<and> content q = shareCaption
         \<and> likes q = [] \<and> comments q = []
         \<and> createdAt q = now2
         \<and> targetUserIds q = Some selectedFriends))"
  by (simp add: handleSharePost_def newPost_def createPost_fs_def)

theorem handleSharePost_chains_witness:
  "[''u-alice''] \<noteq> ([] :: string list)
   \<and> fs_posts (handleSharePost 2 3 carol ''again'' [''u-alice'']
                  (Some (mkPost ''post-share-1'' ''u-bob'' (Some ''post-1''))) peopleDocs)
         (''post-share-'' @ string_of_nat 2)
       = Some \<lparr>pid = ''post-share-'' @ string_of_nat 2, authorId = ''u-carol'',
                content = ''again'', post_image = None, likes = [], comments = [],
                createdAt = 3, sharedFromId = Some ''post-share-1'',
                targetUserIds = Some [''u-alice'']\<rparr>"
  using handleSharePost_chains [of 2 3 carol "''again''" "[''u-alice'']" peopleDocs
      "mkPost ''post-share-1'' ''u-bob'' (Some ''post-1'')"]
  by (simp add: handleSharePost_def newPost_def createPost_fs_def mkPost_def carol_def mkUser_def)

text \<open>
  The claim as stated fails: the share of a share, sent to one selected friend, is
  stored and points to the intermediate share, not to the post the intermediate share
  came from.
\<close>

theorem share_of_share_counterexample:
  "sharedFromId (mkPost ''post-share-1'' ''u-bob'' (Some ''post-1'')) = Some ''post-1''
   \<and> map_option sharedFromId
        (fs_posts (handleSharePost 2 3 carol ''again'' [''u-alice'']
                     (Some (mkPost ''post-share-1'' ''u-bob'' (Some ''post-1''))) peopleDocs)
           (''post-share-'' @ string_of_nat 2))
       = Some (Some ''post-share-1'')
   \<and> ''post-share-1'' \<noteq> ''post-1''"
  by (simp add: handleSharePost_def newPost_def createPost_fs_def mkPost_def)

section \<open>Login of the asynchronous local-storage service\<close>

text \<open>
  Claim C9, as the code has it. In the asynchronous local-storage service the password
  argument of \<open>login\<close> has no influence: two calls with the same user id and any two
  passwords give the same result. The result is the error "user not found" exactly when
  no stored user has the given \<open>userId\<close>. When a stored user has it, the result is
  the first such user, with that user's id as the session, when the storage accepts the
  write of the session, and the error "storage full" when the storage refuses it.
\<close>

theorem login_ignores_password:
  "login quota userId' pw1 s = login quota userId' pw2 s
   \<and> (login quota userId' pw1 s = Inl UserNotFound \<longleftrightarrow> find (\<lambda>u. userId u = userId') (USERS s) = None)
   \<and> (\<forall>f. find (\<lambda>u. userId u = userId') (USERS s) = Some f \<and> quota (s\<lparr>SESSION := Some (uid f)\<rparr>)
         \<longrightarrow> login quota userId' pw1 s = Inr (f, s\<lparr>SESSION := Some (uid f)\<rparr>))
   \<and> (\<forall>f. find (\<lambda>u. userId u = userId') (USERS s) = Some f \<and> \<not> quota (s\<lparr>SESSION := Some (uid f)\<rparr>)
         \<longrightarrow> login quota userId' pw1 s = Inl StorageFull)"
  by (auto simp: login_def setStored_def setItem_def Let_def split: option.splits)

theorem login_ignores_password_witness:
  "find (\<lambda>u. userId u = ''bob1'') (USERS (people :: string localStorage)) = Some bob
   \<and> unlimited ((people :: string localStorage)\<lparr>SESSION := Some (uid bob)\<rparr>)
   \<and> \<not> full ((people :: string localStorage)\<lparr>SESSION := Some (uid bob)\<rparr>)
   \<and> password bob = Some ''secret''
   \<and> login unlimited ''bob1'' ''wrong'' people = Inr (bob, people\<lparr>SESSION := Some ''u-bob''\<rparr>)
   \<and> login unlimited ''bob1'' ''wrong'' people = login unlimited ''bob1'' ''secret'' people
   \<and> login full ''bob1'' ''wrong'' people = Inl StorageFull
   \<and> login full ''bob1'' ''wrong'' people = login full ''bob1'' ''secret'' people"
proof -
  have h: "find (\<lambda>u. userId u = ''bob1'') (USERS (people :: string localStorage)) = Some bob
           \<and> unlimited ((people :: string localStorage)\<lparr>SESSION := Some (uid bob)\<rparr>)"
    by (simp add: people_def emptyStorage_def alice_def bob_def carol_def mkUser_def unlimited_def)
  have g: "\<not> full ((people :: string localStorage)\<lparr>SESSION := Some (uid bob)\<rparr>)"
    by (simp add: full_def)
  have u: "uid bob = ''u-bob''" "password bob = Some ''secret''"
    by (simp_all add: bob_def mkUser_def)
  from login_ignores_password [of unlimited "''bob1''" "''wrong''" people "''secret''"] h
  have a: "login unlimited ''bob1'' ''wrong'' people = Inr (bob, people\<lparr>SESSION := Some (uid bob)\<rparr>)"
    and b: "login unlimited ''bob1'' ''wrong'' people = login unlimited ''bob1'' ''secret'' people"
    by blast+
  from login_ignores_password [of full "''bob1''" "''wrong''" people "''secret''"] h g
  have c: "login full ''bob1'' ''wrong'' people = Inl StorageFull"
    and d: "login full ''bob1'' ''wrong'' people = login full ''bob1'' ''secret'' people"
    by blast+
  from a b c d h g u show ?thesis by simp
qed

text \<open>
  The claim as stated fails: an error is not reserved to the case where no user matches.
  Bob is stored, and in a browser whose storage is full his login fails with "storage
  full", whatever the password.
\<close>

theorem login_error_counterexample:
  "findUserByCustomId ''bob1'' (people :: string localStorage) = Some bob
   \<and> login full ''bob1'' ''secret'' people = Inl StorageFull"
  by (simp add: findUserByCustomId_def login_def setStored_def setItem_def full_def people_def
      emptyStorage_def alice_def bob_def carol_def mkUser_def)

section \<open>Deleting a user in the asynchronous local-storage service\<close>

text \<open>
  Claim C10. \<open>deleteUser uid\<close> of the asynchronous local-storage service writes the
  user list without the records whose id is \<open>uid\<close>: every other record stays, as it
  was and in the same order, so the deleted id stays wherever it occurs in the
  \<open>friends\<close> and \<open>friendRequests\<close> of the others; posts, messages and the session
  are not touched. The call fails only when the storage refuses the write.
\<close>

theorem deleteUser_frame:
  "deleteUser quota uid' s =
     (if quota (s\<lparr>USERS := filter (\<lambda>u. uid u \<noteq> uid') (USERS s)\<rparr>)
      then Inr (s\<lparr>USERS := filter (\<lambda>u. uid u \<noteq> uid') (USERS s)\<rparr>) else Inl StorageFull)
   \<and> (\<forall>s'. deleteUser quota uid' s = Inr s' \<longrightarrow>
         USERS s' = filter (\<lambda>u. uid u \<noteq> uid') (USERS s) \<and>
         (\<forall>u. u \<in> set (USERS s') \<longleftrightarrow> u \<in> set (USERS s) \<and> uid u \<noteq> uid') \<and>
         POSTS s' = POSTS s \<and> MESSAGES s' = MESSAGES s \<and> SESSION s' = SESSION s)"
  by (auto simp: deleteUser_def setStored_def setItem_def)

theorem deleteUser_frame_witness:
  "deleteUser unlimited ''u-bob'' people = Inr (people\<lparr>USERS := [alice, carol]\<rparr>)
   \<and> carol \<in> set (USERS (people\<lparr>USERS := [alice, carol]\<rparr> :: string localStorage))
   \<and> ''u-bob'' \<in> set (friends carol) \<and> ''u-bob'' \<in> set (friendRequests carol)"
  using deleteUser_frame [of unlimited "''u-bob''" people]
  by (simp add: people_def emptyStorage_def alice_def bob_def carol_def mkUser_def unlimited_def)

end
